theory Spec2Isabelle
  imports Complex_Main "HOL-Library.Monad_Syntax"
begin

section \<open>Numbers and scene-graph objects\<close>

text \<open>
  JavaScript numbers are IEEE 754 doubles. They are modelled as reals, and the arithmetic of
  the animation formulas is exact, with one exception: the phase of a pulse,
  \<^verbatim>\<open>elapsedTime * speed + offset\<close>, is rounded after the product and after the sum as binary64
  arithmetic rounds it, because \<^verbatim>\<open>% 1\<close> wraps on the rounded value. NaN and the infinities are
  left out: a result of magnitude \<open>2^1024\<close> or more is outside the model.

  The remainder operator \<^verbatim>\<open>a % n\<close> of JavaScript truncates the quotient towards zero, so the
  result carries the sign of the dividend, and it is exact on doubles. (For \<open>n = 0\<close> JavaScript
  yields NaN; the program only ever divides by the literal 1.)
\<close>

definition js_rem :: "real \<Rightarrow> real \<Rightarrow> real" where
  "js_rem a n = a - n * of_int (if 0 \<le> a / n then \<lfloor>a / n\<rfloor> else \<lceil>a / n\<rceil>)"

text \<open>
  Rounding to the nearest double, ties to even. A double has 53 significant bits: around
  \<open>x\<close> with \<open>2^e \<le> \<bar>x\<bar> < 2^(e+1)\<close> the doubles are the multiples of \<open>2^(e-52)\<close>, and below
  \<open>2^(-1022)\<close> (the subnormal range) the multiples of \<open>2^(-1074)\<close>. The exponent is found by
  halving or doubling, at most as often as the format has exponents.
\<close>

definition roundTiesToEven :: "real \<Rightarrow> int" where
  "roundTiesToEven x =
     (let n = \<lfloor>x\<rfloor>; d = x - of_int n
      in if d < 1 / 2 then n else if 1 / 2 < d then n + 1 else if even n then n else n + 1)"

fun exponent_up :: "nat \<Rightarrow> real \<Rightarrow> int" where
  "exponent_up 0 x = 0"
| "exponent_up (Suc n) x = (if x < 2 then 0 else exponent_up n (x / 2) + 1)"

fun exponent_down :: "nat \<Rightarrow> real \<Rightarrow> int" where
  "exponent_down 0 x = - 1"
| "exponent_down (Suc n) x = (if 1 \<le> 2 * x then - 1 else exponent_down n (2 * x) - 1)"

definition exponent :: "real \<Rightarrow> int" where
  "exponent x = (if 1 \<le> \<bar>x\<bar> then exponent_up 1023 \<bar>x\<bar> else exponent_down 1021 \<bar>x\<bar>)"

definition ulp :: "real \<Rightarrow> real" where
  "ulp x = 2 powi (exponent x - 52)"

definition roundToDouble :: "real \<Rightarrow> real" where
  "roundToDouble x = of_int (roundTiesToEven (x / ulp x)) * ulp x"

text \<open>The objects of the three.js scene graph that the per-frame callbacks write to.\<close>

record Vector3 =
  vx :: real
  vy :: real
  vz :: real

record Color =
  col_r :: real
  col_g :: real
  col_b :: real

record BasicMaterial =
  opacity :: real
  color :: Color

text \<open>
  \<^verbatim>\<open>mesh.material\<close> may hold any material (or an array of them); the callbacks test
  \<^verbatim>\<open>instanceof THREE.MeshBasicMaterial\<close> before they write to it.
\<close>

datatype Material = MeshBasicMaterial BasicMaterial | OtherMaterial

record Mesh =
  scale :: Vector3
  position :: Vector3
  material :: Material

record PointLight =
  intensity :: real

text \<open>\<^verbatim>\<open>Vector3.setScalar\<close>, \<^verbatim>\<open>Vector3.lerpVectors\<close> and \<^verbatim>\<open>Color.multiplyScalar\<close> of three.js.\<close>

definition Vector3_new :: "real \<Rightarrow> real \<Rightarrow> real \<Rightarrow> Vector3" where
  "Vector3_new x y z = \<lparr>vx = x, vy = y, vz = z\<rparr>"

definition setScalar :: "real \<Rightarrow> Vector3 \<Rightarrow> Vector3" where
  "setScalar s v = v\<lparr>vx := s, vy := s, vz := s\<rparr>"

definition lerpVectors :: "Vector3 \<Rightarrow> Vector3 \<Rightarrow> real \<Rightarrow> Vector3 \<Rightarrow> Vector3" where
  "lerpVectors v1 v2 alpha v =
     v\<lparr>vx := vx v1 + (vx v2 - vx v1) * alpha,
       vy := vy v1 + (vy v2 - vy v1) * alpha,
       vz := vz v1 + (vz v2 - vz v1) * alpha\<rparr>"

definition multiplyScalar :: "real \<Rightarrow> Color \<Rightarrow> Color" where
  "multiplyScalar s c = c\<lparr>col_r := col_r c * s, col_g := col_g c * s, col_b := col_b c * s\<rparr>"

section \<open>BlinkingLight (part_000)\<close>

text \<open>
  The two refs of a \<^verbatim>\<open>BlinkingLight\<close>: \<^verbatim>\<open>ref.current\<close> (the mesh) and \<^verbatim>\<open>lightRef.current\<close> (the
  point light). Either is \<open>None\<close> while the object is not mounted. A callback is a function
  from refs to \<open>refs option\<close>: \<open>None\<close> stands for a thrown TypeError (a property read on
  \<^verbatim>\<open>null\<close>), so every dereference of the source is a bind that can fail.
\<close>

record BlinkingLightRefs =
  bl_ref :: "Mesh option"
  bl_lightRef :: "PointLight option"

record BlinkingLightProps =
  bl_position :: "real \<times> real \<times> real"
  bl_color :: string
  bl_speed :: real
  bl_isMobile :: bool

definition blinkRate :: "real \<Rightarrow> real" where
  "blinkRate speed = 1.5 + (speed * 0.2)"

definition isOn :: "real \<Rightarrow> real \<Rightarrow> real \<Rightarrow> bool" where
  "isOn speed offset elapsedTime =
     (let t = elapsedTime * speed + offset in sin (t * blinkRate speed) > 0)"

text \<open>\<^verbatim>\<open>ref.current.f = ...\<close>: dereference the mesh ref, then update the mesh.\<close>

definition on_mesh :: "(Mesh \<Rightarrow> Mesh) \<Rightarrow> BlinkingLightRefs \<Rightarrow> BlinkingLightRefs option" where
  "on_mesh f st = do { m \<leftarrow> bl_ref st; Some (st\<lparr>bl_ref := Some (f m)\<rparr>) }"

definition on_light :: "(PointLight \<Rightarrow> PointLight) \<Rightarrow> BlinkingLightRefs \<Rightarrow> BlinkingLightRefs option" where
  "on_light f st = do { l \<leftarrow> bl_lightRef st; Some (st\<lparr>bl_lightRef := Some (f l)\<rparr>) }"

text \<open>
  The \<^verbatim>\<open>useFrame\<close> callback of part_000. \<open>newColor\<close> is \<^verbatim>\<open>new THREE.Color\<close> (the parser of
  colour strings, part of three.js); \<open>offset\<close> is the memoised phase offset of the instance.
\<close>

definition BlinkingLight_useFrame ::
  "(string \<Rightarrow> Color) \<Rightarrow> BlinkingLightProps \<Rightarrow> real \<Rightarrow> real \<Rightarrow> BlinkingLightRefs
     \<Rightarrow> BlinkingLightRefs option" where
  "BlinkingLight_useFrame newColor props offset elapsedTime st =
     (if bl_ref st \<noteq> None then
        (let on = isOn (bl_speed props) offset elapsedTime;
             intensity = (if on then 1.0 else 0.15);
             scl = (if on then 1.2 else 0.9)
         in do {
           st1 \<leftarrow> on_mesh (\<lambda>m. m\<lparr>scale := setScalar scl (scale m)\<rparr>) st;
           m1 \<leftarrow> bl_ref st1;
           st2 \<leftarrow> (case material m1 of
                    MeshBasicMaterial mat \<Rightarrow>
                      (let colorObj = newColor (bl_color props);
                           colorObj = (if on then multiplyScalar 1.3 colorObj else colorObj)
                       in on_mesh (\<lambda>m. m\<lparr>material :=
                            MeshBasicMaterial (mat\<lparr>opacity := intensity, color := colorObj\<rparr>)\<rparr>) st1)
                  | OtherMaterial \<Rightarrow> Some st1);
           (if bl_lightRef st2 \<noteq> None \<and> \<not> bl_isMobile props
            then on_light (\<lambda>l. l\<lparr>intensity := (if on then 1.2 else 0.15)\<rparr>) st2
            else Some st2)
         })
      else Some st)"

section \<open>BlinkingLight (part_001)\<close>

text \<open>
  Components with a single mesh ref (\<^verbatim>\<open>const ref = useRef<THREE.Mesh>(null)\<close>) keep it in a
  \<open>MeshRef\<close>; writing through it dereferences \<^verbatim>\<open>ref.current\<close>.
\<close>

record MeshRef =
  current :: "Mesh option"

definition on_current :: "(Mesh \<Rightarrow> Mesh) \<Rightarrow> MeshRef \<Rightarrow> MeshRef option" where
  "on_current f r = do { m \<leftarrow> current r; Some (r\<lparr>current := Some (f m)\<rparr>) }"

text \<open>
  The other \<^verbatim>\<open>BlinkingLight\<close> of the repository (part_001) eases the light instead of
  switching it: the intensity follows the sine itself, at the constant rate 15.
\<close>

definition blink_intensity_001 :: "real \<Rightarrow> real \<Rightarrow> real \<Rightarrow> real" where
  "blink_intensity_001 speed offset elapsedTime =
     (let t = elapsedTime * speed + offset in (sin (t * 15) + 1) / 2)"

definition BlinkingLight_useFrame_001 :: "real \<Rightarrow> real \<Rightarrow> real \<Rightarrow> MeshRef \<Rightarrow> MeshRef option" where
  "BlinkingLight_useFrame_001 speed offset elapsedTime r =
     (if current r \<noteq> None then
        (let intensity = blink_intensity_001 speed offset elapsedTime;
             scl = 1 + intensity * 0.3
         in do {
           r1 \<leftarrow> on_current (\<lambda>m. m\<lparr>scale := setScalar scl (scale m)\<rparr>) r;
           m1 \<leftarrow> current r1;
           (case material m1 of
              MeshBasicMaterial mat \<Rightarrow>
                on_current (\<lambda>m. m\<lparr>material :=
                  MeshBasicMaterial (mat\<lparr>opacity := 0.6 + (intensity * 0.4)\<rparr>)\<rparr>) r1
            | OtherMaterial \<Rightarrow> Some r1)
         })
      else Some r)"

section \<open>PulsePacket (the same in part_000 and part_001)\<close>

record PulsePacketProps =
  pathStart :: Vector3
  pathEnd :: Vector3
  pp_color :: string
  pp_speed :: real
  pp_offset :: real

text \<open>
  \<^verbatim>\<open>state.clock.elapsedTime * speed + offset\<close> as the code computes it: the product is rounded
  to a double, then the sum. \<^verbatim>\<open>% 1\<close> of the result is exact.
\<close>

definition pulse_phase :: "real \<Rightarrow> real \<Rightarrow> real \<Rightarrow> real" where
  "pulse_phase speed offset elapsedTime =
     roundToDouble (roundToDouble (elapsedTime * speed) + offset)"

definition pulse_progress :: "real \<Rightarrow> real \<Rightarrow> real \<Rightarrow> real" where
  "pulse_progress speed offset elapsedTime = js_rem (pulse_phase speed offset elapsedTime) 1"

definition pulse_opacity :: "real \<Rightarrow> real" where
  "pulse_opacity t = (if t > 0.8 then (1 - t) * 5 else 1)"

definition PulsePacket_useFrame :: "PulsePacketProps \<Rightarrow> real \<Rightarrow> MeshRef \<Rightarrow> MeshRef option" where
  "PulsePacket_useFrame props elapsedTime r =
     (if current r \<noteq> None then
        (let t = pulse_progress (pp_speed props) (pp_offset props) elapsedTime
         in do {
           r1 \<leftarrow> on_current (\<lambda>m. m\<lparr>position :=
                   lerpVectors (pathStart props) (pathEnd props) t (position m)\<rparr>) r;
           m1 \<leftarrow> current r1;
           (case material m1 of
              MeshBasicMaterial mat \<Rightarrow>
                on_current (\<lambda>m. m\<lparr>material :=
                  MeshBasicMaterial (mat\<lparr>opacity := pulse_opacity t\<rparr>)\<rparr>) r1
            | OtherMaterial \<Rightarrow> Some r1)
         })
      else Some r)"

section \<open>The objects as the components mount them\<close>

text \<open>
  What the refs hold once the JSX of a component is committed: a mesh at the origin with unit
  scale (the defaults of three.js) and a \<^verbatim>\<open>meshBasicMaterial\<close> of the given colour at full
  opacity; for a \<^verbatim>\<open>BlinkingLight\<close> of part_000 also a point light of intensity 1.5, unless
  \<^verbatim>\<open>isMobile\<close>.
\<close>

definition mounted_mesh :: "Color \<Rightarrow> Mesh" where
  "mounted_mesh c =
     \<lparr>scale = Vector3_new 1 1 1, position = Vector3_new 0 0 0,
      material = MeshBasicMaterial \<lparr>opacity = 1, color = c\<rparr>\<rparr>"

definition BlinkingLight_mounted :: "(string \<Rightarrow> Color) \<Rightarrow> BlinkingLightProps \<Rightarrow> BlinkingLightRefs" where
  "BlinkingLight_mounted newColor props =
     \<lparr>bl_ref = Some (mounted_mesh (newColor (bl_color props))),
      bl_lightRef = (if bl_isMobile props then None else Some \<lparr>intensity = 1.5\<rparr>)\<rparr>"

definition PulsePacket_mounted :: "(string \<Rightarrow> Color) \<Rightarrow> PulsePacketProps \<Rightarrow> MeshRef" where
  "PulsePacket_mounted newColor props = \<lparr>current = Some (mounted_mesh (newColor (pp_color props)))\<rparr>"

section \<open>React: the random source, memoised values, component instances\<close>

text \<open>
  \<^verbatim>\<open>Math.random()\<close> reads a hidden source of numbers in \<open>[0,1)\<close>. The source is made explicit:
  a render takes the stream of numbers still to come and returns what is left of it, so that
  two renders can be compared on different draws.
\<close>

type_synonym rng = "nat \<Rightarrow> real"

definition Math_random :: "rng \<Rightarrow> real \<times> rng" where
  "Math_random g = (g 0, \<lambda>n. g (Suc n))"

text \<open>
  \<^verbatim>\<open>useMemo(factory, [])\<close>: the hook owns a cell that is empty before the first render of the
  instance. With an empty dependency list the factory runs only while the cell is empty.
\<close>

definition useMemo :: "(rng \<Rightarrow> 'a \<times> rng) \<Rightarrow> 'a option \<Rightarrow> rng \<Rightarrow> 'a \<times> 'a option \<times> rng" where
  "useMemo factory cell g =
     (case cell of
        Some v \<Rightarrow> (v, Some v, g)
      | None \<Rightarrow> (case factory g of (v, g') \<Rightarrow> (v, Some v, g')))"

text \<open>
  A mounted \<^verbatim>\<open>BlinkingLight\<close>: the memo cell of \<^verbatim>\<open>offset\<close>, the props and the offset captured by
  the callback that the latest render handed to \<^verbatim>\<open>useFrame\<close>, and the refs.
\<close>

record BlinkingLightInstance =
  offset_cell :: "real option"
  frame_props :: BlinkingLightProps
  frame_offset :: real
  refs :: BlinkingLightRefs

definition BlinkingLight :: "BlinkingLightProps \<Rightarrow> BlinkingLightInstance \<Rightarrow> rng
     \<Rightarrow> BlinkingLightInstance \<times> rng" where
  "BlinkingLight props inst g =
     (case useMemo (\<lambda>g. case Math_random g of (r, g') \<Rightarrow> (r * 100, g')) (offset_cell inst) g of
        (offset, cell, g') \<Rightarrow>
          (inst\<lparr>offset_cell := cell, frame_props := props, frame_offset := offset\<rparr>, g'))"

text \<open>
  What happens to an instance after it is mounted: its parent renders it again, with any props
  and any random draws, or the engine calls the frame callback of its latest render.
\<close>

datatype BlinkingLightEvent = Render BlinkingLightProps rng | Frame real

definition BlinkingLight_event :: "(string \<Rightarrow> Color) \<Rightarrow> BlinkingLightEvent
     \<Rightarrow> BlinkingLightInstance \<Rightarrow> BlinkingLightInstance option" where
  "BlinkingLight_event newColor e inst =
     (case e of
        Render props g \<Rightarrow> Some (fst (BlinkingLight props inst g))
      | Frame elapsedTime \<Rightarrow>
          do {
            r \<leftarrow> BlinkingLight_useFrame newColor (frame_props inst) (frame_offset inst)
                   elapsedTime (refs inst);
            Some (inst\<lparr>refs := r\<rparr>)
          })"

fun BlinkingLight_events :: "(string \<Rightarrow> Color) \<Rightarrow> BlinkingLightEvent list
     \<Rightarrow> BlinkingLightInstance \<Rightarrow> BlinkingLightInstance option" where
  "BlinkingLight_events newColor [] inst = Some inst"
| "BlinkingLight_events newColor (e # es) inst =
     do { inst' \<leftarrow> BlinkingLight_event newColor e inst; BlinkingLight_events newColor es inst' }"

section \<open>CircuitFloor: the pulses and their props\<close>

text \<open>The memoised \<^verbatim>\<open>paths\<close>: three loops of three paths each; the factory draws no numbers.\<close>

definition paths_to :: "real \<Rightarrow> (Vector3 \<times> Vector3) list" where
  "paths_to x =
     (let startZ = 6; endZ = 1
      in map (\<lambda>i. (Vector3_new (x + (i * 0.2 - 0.2)) (- 1.24) startZ,
                    Vector3_new x (- 1.24) endZ)) [0, 1, 2])"

definition paths :: "(Vector3 \<times> Vector3) list" where
  "paths = paths_to 0 @ paths_to (- 1.25) @ paths_to 1.25"

definition pulseColor :: "bool \<Rightarrow> string" where
  "pulseColor isDarkMode = (if isDarkMode then ''#00ff88'' else ''#10b981'')"

text \<open>
  \<^verbatim>\<open>paths.map((path, i) => <PulsePacket ... speed={0.5 + Math.random() * 0.5}
  offset={Math.random() * 10} />)\<close>: both props are drawn while \<^verbatim>\<open>CircuitFloor\<close> renders, the
  speed first.
\<close>

fun PulsePackets :: "(Vector3 \<times> Vector3) list \<Rightarrow> string \<Rightarrow> rng \<Rightarrow> PulsePacketProps list \<times> rng" where
  "PulsePackets [] c g = ([], g)"
| "PulsePackets (path # rest) c g =
     (case Math_random g of (r1, g1) \<Rightarrow>
      case Math_random g1 of (r2, g2) \<Rightarrow>
      case PulsePackets rest c g2 of (ps, g3) \<Rightarrow>
        (\<lparr>pathStart = fst path, pathEnd = snd path, pp_color = c,
          pp_speed = 0.5 + r1 * 0.5, pp_offset = r2 * 10\<rparr> # ps, g3))"

definition CircuitFloor :: "bool \<Rightarrow> rng \<Rightarrow> PulsePacketProps list \<times> rng" where
  "CircuitFloor isDarkMode g = PulsePackets paths (pulseColor isDarkMode) g"

section \<open>ServerBlade: the status lights\<close>

text \<open>part_000: a green and an amber link light, with memoised speeds.\<close>

record ServerBladeHooks =
  lightOffset :: "real option"
  greenLightSpeed :: "real option"
  amberLightSpeed :: "real option"

definition greenColor :: "bool \<Rightarrow> string" where
  "greenColor isDarkMode = (if isDarkMode then ''#00ff88'' else ''#10b981'')"

definition amberColor :: "bool \<Rightarrow> string" where
  "amberColor isDarkMode = (if isDarkMode then ''#ffaa00'' else ''#f59e0b'')"

definition ServerBlade :: "bool \<Rightarrow> bool \<Rightarrow> ServerBladeHooks \<Rightarrow> rng
     \<Rightarrow> BlinkingLightProps list \<times> ServerBladeHooks \<times> rng" where
  "ServerBlade isDarkMode isMobile h g =
     (case useMemo (\<lambda>g. case Math_random g of (r, g') \<Rightarrow> (r * 100, g')) (lightOffset h) g of
        (_, c0, g0) \<Rightarrow>
      case useMemo (\<lambda>g. case Math_random g of (r, g') \<Rightarrow> (0.8 + r * 0.4, g')) (greenLightSpeed h) g0 of
        (green, c1, g1) \<Rightarrow>
      case useMemo (\<lambda>g. case Math_random g of (r, g') \<Rightarrow> (0.8 + r * 0.4, g')) (amberLightSpeed h) g1 of
        (amber, c2, g2) \<Rightarrow>
        ([\<lparr>bl_position = (0, 0, 0), bl_color = greenColor isDarkMode,
           bl_speed = green, bl_isMobile = isMobile\<rparr>,
          \<lparr>bl_position = (0.08, 0, 0), bl_color = amberColor isDarkMode,
           bl_speed = amber, bl_isMobile = isMobile\<rparr>],
         \<lparr>lightOffset = c0, greenLightSpeed = c1, amberLightSpeed = c2\<rparr>, g2))"

text \<open>
  part_001: three lights in the primary colour when the memoised \<^verbatim>\<open>hasLights\<close> holds, and a
  fourth in the secondary colour under \<^verbatim>\<open>Math.random() > 0.8\<close>, which is drawn by the render
  itself.
\<close>

record BlinkingLightProps_001 =
  bl1_position :: "real \<times> real \<times> real"
  bl1_color :: string
  bl1_speed :: real

definition lightColor :: "bool \<Rightarrow> string" where
  "lightColor isDarkMode = (if isDarkMode then ''#00ff88'' else ''#059669'')"

definition secondaryLightColor :: "bool \<Rightarrow> string" where
  "secondaryLightColor isDarkMode = (if isDarkMode then ''#00ffff'' else ''#f43f5e'')"

definition ServerBlade_001 :: "bool \<Rightarrow> bool option \<Rightarrow> rng
     \<Rightarrow> BlinkingLightProps_001 list \<times> bool option \<times> rng" where
  "ServerBlade_001 isDarkMode hasLights_cell g =
     (case useMemo (\<lambda>g. case Math_random g of (r, g') \<Rightarrow> (r > 0.2, g')) hasLights_cell g of
        (hasLights, cell, g0) \<Rightarrow>
          (if hasLights then
             (case Math_random g0 of (r, g1) \<Rightarrow>
                ([\<lparr>bl1_position = (0, 0, 0), bl1_color = lightColor isDarkMode, bl1_speed = 4\<rparr>,
                  \<lparr>bl1_position = (0.05, 0, 0), bl1_color = lightColor isDarkMode, bl1_speed = 3\<rparr>,
                  \<lparr>bl1_position = (0.10, 0, 0), bl1_color = lightColor isDarkMode, bl1_speed = 6\<rparr>]
                 @ (if r > 0.8
                    then [\<lparr>bl1_position = (0.15, 0, 0),
                           bl1_color = secondaryLightColor isDarkMode, bl1_speed = 8\<rparr>]
                    else []),
                 cell, g1))
           else ([], cell, g0)))"

section \<open>The view-state, App and UIOverlay\<close>

text \<open>
  \<^verbatim>\<open>activeSection\<close> and \<^verbatim>\<open>isDarkMode\<close> are the state of \<^verbatim>\<open>App\<close>, \<^verbatim>\<open>mobileMenuOpen\<close> that of
  \<^verbatim>\<open>UIOverlay\<close>; the setters are those returned by \<^verbatim>\<open>useState\<close>.
\<close>

record ViewState =
  activeSection :: string
  isDarkMode :: bool
  mobileMenuOpen :: bool

definition setActiveSection :: "string \<Rightarrow> ViewState \<Rightarrow> ViewState" where
  "setActiveSection s st = st\<lparr>activeSection := s\<rparr>"

definition setIsDarkMode :: "bool \<Rightarrow> ViewState \<Rightarrow> ViewState" where
  "setIsDarkMode b st = st\<lparr>isDarkMode := b\<rparr>"

definition setMobileMenuOpen :: "bool \<Rightarrow> ViewState \<Rightarrow> ViewState" where
  "setMobileMenuOpen b st = st\<lparr>mobileMenuOpen := b\<rparr>"

text \<open>
  \<^verbatim>\<open>String.prototype.toLowerCase\<close> on the characters a \<open>char\<close> can hold, read as the code
  points up to U+00FF: the letters A to Z and the accented capitals U+00C0 to U+00DE (the
  multiplication sign U+00D7 apart) move up by 32.
\<close>

definition toLowerCase_char :: "char \<Rightarrow> char" where
  "toLowerCase_char c =
     (let n = (of_char c :: nat)
      in if (65 \<le> n \<and> n \<le> 90) \<or> (192 \<le> n \<and> n \<le> 222 \<and> n \<noteq> 215)
         then char_of (n + 32) else c)"

definition toLowerCase :: "string \<Rightarrow> string" where
  "toLowerCase s = map toLowerCase_char s"

definition menuItems :: "string list" where
  "menuItems = [''HOME'', ''PROJECTS'', ''TOOLS'', ''CONTACT'']"

definition textPrimary :: "bool \<Rightarrow> string" where
  "textPrimary isDark = (if isDark then ''text-arch-100'' else ''text-arch-900'')"

definition textSecondary :: "bool \<Rightarrow> string" where
  "textSecondary isDark = (if isDark then ''text-arch-500'' else ''text-arch-500'')"

definition borderPrimary :: "bool \<Rightarrow> string" where
  "borderPrimary isDark = (if isDark then ''border-arch-100'' else ''border-arch-900'')"

definition borderSecondary :: "bool \<Rightarrow> string" where
  "borderSecondary isDark = (if isDark then ''border-arch-800'' else ''border-arch-300'')"

definition cardBg :: "bool \<Rightarrow> string" where
  "cardBg isDark = (if isDark then ''bg-arch-900/80'' else ''bg-white/80'')"

definition mobileMenuBg :: "bool \<Rightarrow> string" where
  "mobileMenuBg isDark = (if isDark then ''bg-arch-900'' else ''bg-arch-100'')"

text \<open>
  A rendered button: its text (for the hamburger, which shows an icon, its \<^verbatim>\<open>aria-label\<close>), the
  theme-dependent part of its \<^verbatim>\<open>className\<close> (the interpolated expression; the constant
  classes around it are left out) and its click handler, a closure over the values of the
  render that made it.
\<close>

record Button =
  label :: string
  className :: string
  onClick :: "ViewState \<Rightarrow> ViewState"

record UIOverlayOutput =
  themeToggle :: Button
  desktopNav :: "Button list"
  hamburger :: Button
  mobileMenuClass :: "string option"
  mobileNav :: "Button list"
  mobileThemeToggle :: "Button option"

text \<open>\<^verbatim>\<open>App\<close> passes \<^verbatim>\<open>toggleTheme={() => setIsDarkMode(!isDarkMode)}\<close>, closed over its render.\<close>

definition toggleTheme :: "bool \<Rightarrow> ViewState \<Rightarrow> ViewState" where
  "toggleTheme isDark = setIsDarkMode (\<not> isDark)"

definition UIOverlay :: "ViewState \<Rightarrow> UIOverlayOutput" where
  "UIOverlay st =
     (let dark = isDarkMode st;
          themeClass = (if dark then ''border-arch-500 text-arch-100''
                        else ''border-arch-900 text-arch-900'')
      in \<lparr>themeToggle =
            \<lparr>label = (if dark then ''LIGHT MODE'' else ''DARK MODE''),
             className = themeClass,
             onClick = toggleTheme dark\<rparr>,
          desktopNav =
            map (\<lambda>item.
              \<lparr>label = item,
               className = (if activeSection st = toLowerCase item
                            then textPrimary dark @ '' border-b '' @ borderPrimary dark @ '' opacity-100''
                            else textSecondary dark),
               onClick = setActiveSection (toLowerCase item)\<rparr>) menuItems,
          hamburger =
            \<lparr>label = (if mobileMenuOpen st then ''Close Menu'' else ''Open Menu''),
             className = textPrimary dark,
             onClick = setMobileMenuOpen (\<not> mobileMenuOpen st)\<rparr>,
          mobileMenuClass = (if mobileMenuOpen st then Some (mobileMenuBg dark) else None),
          mobileNav =
            (if mobileMenuOpen st then
               map (\<lambda>item.
                 \<lparr>label = item,
                  className = (if activeSection st = toLowerCase item
                               then textPrimary dark else textSecondary dark),
                  onClick = (\<lambda>s. setMobileMenuOpen False (setActiveSection (toLowerCase item) s))\<rparr>)
                 menuItems
             else []),
          mobileThemeToggle =
            (if mobileMenuOpen st then
               Some \<lparr>label = (if dark then ''SWITCH TO LIGHT'' else ''SWITCH TO DARK''),
                     className = themeClass,
                     onClick = toggleTheme dark\<rparr>
             else None)\<rparr>)"

text \<open>
  A click runs the handler of the button as the latest render made it: React renders again
  after every handler, before the next event is delivered.
\<close>

definition click :: "(UIOverlayOutput \<Rightarrow> Button) \<Rightarrow> ViewState \<Rightarrow> ViewState" where
  "click button st = onClick (button (UIOverlay st)) st"

section \<open>What a frame callback returns\<close>

lemma BlinkingLight_useFrame_Some:
  assumes "bl_ref st = Some m"
  shows "BlinkingLight_useFrame newColor props offset elapsedTime st =
    Some \<lparr>bl_ref = Some (m\<lparr>scale := setScalar (if isOn (bl_speed props) offset elapsedTime then 1.2 else 0.9) (scale m),
                material := (case material m of
                   MeshBasicMaterial mat \<Rightarrow> MeshBasicMaterial
                     (mat\<lparr>opacity := (if isOn (bl_speed props) offset elapsedTime then 1.0 else 0.15),
                          color := (if isOn (bl_speed props) offset elapsedTime
                                    then multiplyScalar 1.3 (newColor (bl_color props))
                                    else newColor (bl_color props))\<rparr>)
                 | OtherMaterial \<Rightarrow> OtherMaterial)\<rparr>),
          bl_lightRef = (case bl_lightRef st of
                 None \<Rightarrow> None
               | Some l \<Rightarrow> Some (if bl_isMobile props then l
                    else l\<lparr>intensity := (if isOn (bl_speed props) offset elapsedTime then 1.2 else 0.15)\<rparr>))\<rparr>"
  using assms
  by (cases st; cases "material m")
     (auto simp: BlinkingLight_useFrame_def on_mesh_def on_light_def Let_def split: option.splits)

lemma BlinkingLight_useFrame_None:
  "bl_ref st = None \<Longrightarrow> BlinkingLight_useFrame newColor props offset elapsedTime st = Some st"
  by (simp add: BlinkingLight_useFrame_def)

lemma BlinkingLight_useFrame_001_Some:
  assumes "current r = Some m"
  shows "BlinkingLight_useFrame_001 speed offset elapsedTime r =
    Some (r\<lparr>current := Some (m\<lparr>scale := setScalar (1 + blink_intensity_001 speed offset elapsedTime * 0.3) (scale m),
               material := (case material m of
                  MeshBasicMaterial mat \<Rightarrow> MeshBasicMaterial
                    (mat\<lparr>opacity := 0.6 + blink_intensity_001 speed offset elapsedTime * 0.4\<rparr>)
                | OtherMaterial \<Rightarrow> OtherMaterial)\<rparr>)\<rparr>)"
  using assms
  by (cases "material m")
     (auto simp: BlinkingLight_useFrame_001_def on_current_def Let_def split: option.splits)

lemma PulsePacket_useFrame_Some:
  assumes "current r = Some m"
  shows "PulsePacket_useFrame props elapsedTime r =
    Some (r\<lparr>current := Some (m\<lparr>position := lerpVectors (pathStart props) (pathEnd props)
                 (pulse_progress (pp_speed props) (pp_offset props) elapsedTime) (position m),
               material := (case material m of
                  MeshBasicMaterial mat \<Rightarrow> MeshBasicMaterial
                    (mat\<lparr>opacity := pulse_opacity (pulse_progress (pp_speed props) (pp_offset props) elapsedTime)\<rparr>)
                | OtherMaterial \<Rightarrow> OtherMaterial)\<rparr>)\<rparr>)"
  using assms
  by (cases "material m")
     (auto simp: PulsePacket_useFrame_def on_current_def Let_def split: option.splits)

section \<open>Rounding to doubles\<close>

lemma exponent_up_numeral:
  "exponent_up (numeral k) x = (if x < 2 then 0 else exponent_up (pred_numeral k) (x / 2) + 1)"
  by (simp add: numeral_eq_Suc)

lemma exponent_down_numeral:
  "exponent_down (numeral k) x =
     (if 1 \<le> 2 * x then - 1 else exponent_down (pred_numeral k) (2 * x) - 1)"
  by (simp add: numeral_eq_Suc)

lemmas fl_eval = roundToDouble_def ulp_def exponent_def exponent_up_numeral exponent_down_numeral
  roundTiesToEven_def Let_def

lemma ulp_pos: "0 < ulp x"
  by (simp add: ulp_def zero_less_power_int)

lemma roundTiesToEven_error: "\<bar>of_int (roundTiesToEven x) - x\<bar> \<le> 1 / 2"
proof -
  have "of_int \<lfloor>x\<rfloor> \<le> x" and "x < of_int \<lfloor>x\<rfloor> + 1"
    by linarith+
  then show ?thesis
    by (auto simp: roundTiesToEven_def Let_def)
qed

lemma roundTiesToEven_nonneg: "0 \<le> x \<Longrightarrow> 0 \<le> roundTiesToEven x"
  by (auto simp: roundTiesToEven_def Let_def)

lemma roundToDouble_nonneg: "0 \<le> x \<Longrightarrow> 0 \<le> roundToDouble x"
  using ulp_pos [of x] by (simp add: roundToDouble_def roundTiesToEven_nonneg)

lemma roundToDouble_error: "\<bar>roundToDouble x - x\<bar> \<le> ulp x / 2"
proof -
  have "roundToDouble x - x = (of_int (roundTiesToEven (x / ulp x)) - x / ulp x) * ulp x"
    using ulp_pos [of x] by (simp add: roundToDouble_def field_simps)
  then have "\<bar>roundToDouble x - x\<bar> = \<bar>of_int (roundTiesToEven (x / ulp x)) - x / ulp x\<bar> * ulp x"
    using ulp_pos [of x] by (simp add: abs_mult)
  also have "\<dots> \<le> 1 / 2 * ulp x"
    using roundTiesToEven_error [of "x / ulp x"] ulp_pos [of x]
    by (intro mult_right_mono) simp_all
  finally show ?thesis by simp
qed

lemma exponent_up_le: "1 \<le> x \<Longrightarrow> 2 powi (exponent_up n x) \<le> x"
proof (induction n arbitrary: x)
  case 0
  then show ?case by simp
next
  case (Suc n)
  show ?case
  proof (cases "x < 2")
    case True
    with Suc.prems show ?thesis by simp
  next
    case False
    then have "2 powi (exponent_up n (x / 2)) \<le> x / 2"
      by (intro Suc.IH) simp
    with False show ?thesis
      by (simp add: power_int_add)
  qed
qed

lemma exponent_down_le:
  "0 < x \<Longrightarrow> 2 powi (- int (Suc n)) \<le> x \<Longrightarrow> 2 powi (exponent_down n x) \<le> x"
proof (induction n arbitrary: x)
  case 0
  then show ?case by simp
next
  case (Suc n)
  show ?case
  proof (cases "1 \<le> 2 * x")
    case True
    then show ?thesis by simp
  next
    case False
    have "2 powi (- int (Suc n)) \<le> 2 * x"
      using Suc.prems(2) by (simp add: power_int_diff power_int_minus field_simps)
    with Suc.prems(1) have "2 powi (exponent_down n (2 * x)) \<le> 2 * x"
      by (intro Suc.IH) simp_all
    with False show ?thesis
      by (simp add: power_int_diff)
  qed
qed

lemma exponent_down_small:
  "0 \<le> x \<Longrightarrow> x < 2 powi (- int (Suc n)) \<Longrightarrow> exponent_down n x = - int (Suc n)"
proof (induction n arbitrary: x)
  case 0
  then show ?case by simp
next
  case (Suc n)
  have "2 * x < 2 powi (- int (Suc n))"
    using Suc.prems(2) by (simp add: power_int_diff power_int_minus field_simps)
  moreover have "2 powi (- int (Suc n)) \<le> (1::real)"
    by (simp add: power_int_def power_le_one)
  ultimately show ?case
    using Suc.prems(1) Suc.IH [of "2 * x"] by simp
qed

lemma ulp_le:
  assumes "0 \<le> x"
  shows "ulp x / 2 \<le> x / 2 ^ 53 + 1 / 2 ^ 1075"
proof -
  consider "1 \<le> x" | "2 powi (- 1022) \<le> x" "x < 1" | "x < 2 powi (- 1022)"
    by linarith
  then show ?thesis
  proof cases
    case 1
    then have "2 powi (exponent x) \<le> x"
      using exponent_up_le [of x 1023] by (simp add: exponent_def)
    then have "ulp x / 2 \<le> x / 2 ^ 53"
      by (simp add: ulp_def power_int_diff field_simps)
    then show ?thesis
      by (simp add: add_increasing2)
  next
    case 2
    moreover have "(0::real) < 2 powi (- 1022)"
      by (simp add: zero_less_power_int)
    ultimately have "0 < x"
      by linarith
    with 2 have "2 powi (exponent x) \<le> x"
      using exponent_down_le [of x 1021] by (simp add: exponent_def)
    then have "ulp x / 2 \<le> x / 2 ^ 53"
      by (simp add: ulp_def power_int_diff field_simps)
    then show ?thesis
      by (simp add: add_increasing2)
  next
    case 3
    moreover have "2 powi (- 1022) \<le> (1::real)"
      by (simp add: power_int_minus field_simps one_le_power)
    ultimately have "exponent x = - 1022"
      using assms exponent_down_small [of x 1021] by (simp add: exponent_def)
    then have "ulp x / 2 = 1 / 2 ^ 1075"
      by (simp add: ulp_def power_int_minus field_simps)
    then show ?thesis
      using assms by simp
  qed
qed

section \<open>The remainder and the pulse\<close>

lemma js_rem_1_nonneg: "0 \<le> a \<Longrightarrow> js_rem a 1 = a - of_int \<lfloor>a\<rfloor>"
  by (simp add: js_rem_def)

lemma pulse_phase_nonneg:
  assumes "0 \<le> t" and "0 \<le> s" and "0 \<le> o'"
  shows "0 \<le> pulse_phase s o' t"
  using assms by (simp add: pulse_phase_def roundToDouble_nonneg)

lemma pulse_progress_frac:
  assumes "0 \<le> t" and "0 \<le> s" and "0 \<le> o'"
  shows "pulse_progress s o' t = pulse_phase s o' t - of_int \<lfloor>pulse_phase s o' t\<rfloor>"
  using pulse_phase_nonneg [OF assms] by (simp add: pulse_progress_def js_rem_1_nonneg)

lemma pulse_phase_error:
  assumes "0 \<le> t" and "0 \<le> s" and "0 \<le> o'"
  shows "\<bar>pulse_phase s o' t - (t * s + o')\<bar> \<le> 3 * (t * s + o') / 2 ^ 53 + 3 / 2 ^ 1075"
proof -
  define a where "a = t * s"
  define b where "b = roundToDouble a + o'"
  define eps :: real where "eps = 1 / 2 ^ 53"
  define eta :: real where "eta = 1 / 2 ^ 1075"
  have a0: "0 \<le> a"
    using assms by (simp add: a_def)
  have b0: "0 \<le> b"
    using a0 assms(3) by (simp add: b_def roundToDouble_nonneg)
  have eps: "0 \<le> eps" "eps \<le> 1" and eta: "0 \<le> eta"
    by (simp_all add: eps_def eta_def field_simps one_le_power)
  have ea: "\<bar>roundToDouble a - a\<bar> \<le> a * eps + eta"
    using roundToDouble_error [of a] ulp_le [OF a0] by (simp add: eps_def eta_def)
  have eb: "\<bar>roundToDouble b - b\<bar> \<le> b * eps + eta"
    using roundToDouble_error [of b] ulp_le [OF b0] by (simp add: eps_def eta_def)
  have "b \<le> a + (a * eps + eta) + o'"
    using ea by (simp add: b_def abs_le_iff)
  then have "b * eps \<le> (a + (a * eps + eta) + o') * eps"
    using eps(1) by (rule mult_right_mono)
  also have "\<dots> = a * eps + a * eps * eps + eta * eps + o' * eps"
    by (simp add: algebra_simps)
  also have "\<dots> \<le> a * eps + a * eps + eta + o' * eps"
  proof -
    have "a * eps * eps \<le> a * eps * 1"
      using a0 eps by (intro mult_left_mono) simp_all
    moreover have "eta * eps \<le> eta * 1"
      using eta eps by (intro mult_left_mono) simp_all
    ultimately show ?thesis by simp
  qed
  finally have beps: "b * eps \<le> 2 * (a * eps) + eta + o' * eps"
    by simp
  have "\<bar>roundToDouble b - (a + o')\<bar> \<le> \<bar>roundToDouble b - b\<bar> + \<bar>roundToDouble a - a\<bar>"
    by (simp add: b_def)
  also have "\<dots> \<le> (b * eps + eta) + (a * eps + eta)"
    using ea eb by linarith
  also have "\<dots> \<le> 3 * (a + o') * eps + 3 * eta"
  proof -
    have "0 \<le> o' * eps"
      using assms(3) eps(1) by simp
    moreover have "3 * (a + o') * eps = 3 * (a * eps) + 3 * (o' * eps)"
      by (simp add: algebra_simps)
    ultimately show ?thesis
      using beps by linarith
  qed
  finally show ?thesis
    by (simp add: pulse_phase_def a_def b_def eps_def eta_def)
qed

lemma pulse_opacity_tendsto: "(pulse_opacity \<longlongrightarrow> 0) (at_left 1)"
proof -
  have "((\<lambda>t::real. (1 - t) * 5) \<longlongrightarrow> (1 - 1) * 5) (at_left 1)"
    by (intro tendsto_intros) 
  moreover have "eventually (\<lambda>t. (1 - t) * 5 = pulse_opacity t) (at_left (1::real))"
    unfolding eventually_at_left_field
    by (rule exI[of _ "4/5"]) (auto simp: pulse_opacity_def)
  ultimately show ?thesis
    using Lim_transform_eventually by fastforce
qed

section \<open>Values of the sine used in examples\<close>

lemma isOn_0: "\<not> isOn s 0 0"
  by (simp add: isOn_def)







lemma sin_3pi2: "sin (3 * pi / 2) = - 1"
  using sin_3over2_pi by simp

lemma blink_intensity_001_mid: "blink_intensity_001 1 0 0 = 1 / 2"
  by (simp add: blink_intensity_001_def)

lemma blink_intensity_001_top: "blink_intensity_001 1 0 (pi / 30) = 1"
  by (simp add: blink_intensity_001_def)

lemma blink_intensity_001_bottom: "blink_intensity_001 1 0 (pi / 10) = 0"
  by (simp add: blink_intensity_001_def sin_3pi2)

lemma blink_intensity_001_range:
  "0 \<le> blink_intensity_001 speed offset t \<and> blink_intensity_001 speed offset t \<le> 1"
proof -
  define x where "x = sin ((t * speed + offset) * 15)"
  have "- 1 \<le> x" and "x \<le> 1"
    by (simp_all add: x_def)
  then have "0 \<le> (x + 1) / 2" and "(x + 1) / 2 \<le> 1"
    by simp_all
  then show ?thesis
    by (simp add: blink_intensity_001_def x_def)
qed

section \<open>The levels of the blink (part_000)\<close>

text \<open>
  C10. In the blink update of part_000 the off level is strictly positive. With the mesh
  mounted on a \<^verbatim>\<open>MeshBasicMaterial\<close> and the point light present (not mobile), a frame in which
  the light is off sets the mesh opacity and the light intensity to 0.15 and the scale to 0.9,
  so the light is dimmed, not invisible; a frame in which it is on sets opacity 1.0, light
  intensity 1.2 and scale 1.2.
\<close>

theorem BlinkingLight_on_off_levels:
  assumes "bl_ref st = Some m" and "material m = MeshBasicMaterial mat"
    and "bl_lightRef st = Some l" and "\<not> bl_isMobile props"
  shows "\<exists>m' mat' l'.
      BlinkingLight_useFrame newColor props offset elapsedTime st
        = Some \<lparr>bl_ref = Some m', bl_lightRef = Some l'\<rparr>
    \<and> material m' = MeshBasicMaterial mat'
    \<and> (if isOn (bl_speed props) offset elapsedTime
       then opacity mat' = 1.0 \<and> intensity l' = 1.2 \<and> scale m' = setScalar 1.2 (scale m)
       else opacity mat' = 0.15 \<and> intensity l' = 0.15 \<and> scale m' = setScalar 0.9 (scale m)
            \<and> 0 < opacity mat' \<and> 0 < intensity l')"
  using assms by (simp add: BlinkingLight_useFrame_Some)

theorem BlinkingLight_on_off_levels_witness:
  "\<exists>m' mat' l'.
      BlinkingLight_useFrame (\<lambda>c. \<lparr>col_r = 0, col_g = 1, col_b = 1 / 2\<rparr>)
        \<lparr>bl_position = (0, 0, 0), bl_color = ''#00ff88'', bl_speed = 1, bl_isMobile = False\<rparr> 0 0
        (BlinkingLight_mounted (\<lambda>c. \<lparr>col_r = 0, col_g = 1, col_b = 1 / 2\<rparr>)
           \<lparr>bl_position = (0, 0, 0), bl_color = ''#00ff88'', bl_speed = 1, bl_isMobile = False\<rparr>)
        = Some \<lparr>bl_ref = Some m', bl_lightRef = Some l'\<rparr>
    \<and> material m' = MeshBasicMaterial mat'
    \<and> opacity mat' = 0.15 \<and> intensity l' = 0.15 \<and> scale m' = Vector3_new 0.9 0.9 0.9"
  using BlinkingLight_on_off_levels [of
      "BlinkingLight_mounted (\<lambda>c. \<lparr>col_r = 0, col_g = 1, col_b = 1 / 2\<rparr>)
           \<lparr>bl_position = (0, 0, 0), bl_color = ''#00ff88'', bl_speed = 1, bl_isMobile = False\<rparr>"
      "mounted_mesh \<lparr>col_r = 0, col_g = 1, col_b = 1 / 2\<rparr>"
      "\<lparr>opacity = 1, color = \<lparr>col_r = 0, col_g = 1, col_b = 1 / 2\<rparr>\<rparr>"
      "\<lparr>intensity = 1.5\<rparr>"
      "\<lparr>bl_position = (0, 0, 0), bl_color = ''#00ff88'', bl_speed = 1, bl_isMobile = False\<rparr>"
      "\<lambda>c. \<lparr>col_r = 0, col_g = 1, col_b = 1 / 2\<rparr>" 0 0]
  by (simp add: BlinkingLight_mounted_def mounted_mesh_def isOn_0 setScalar_def Vector3_new_def) blast

section \<open>Two levels or a continuum\<close>

text \<open>
  C1, as amended. The \<^verbatim>\<open>BlinkingLight\<close> of part_000 writes one of two levels: opacity, scale
  and light intensity are \<open>(1.0, 1.2, 1.2)\<close> when the light is on and \<open>(0.15, 0.9, 0.15)\<close> when
  it is off, and nothing in between (mesh mounted on a \<^verbatim>\<open>MeshBasicMaterial\<close>, point light present,
  not mobile). The \<^verbatim>\<open>BlinkingLight\<close> of part_001 is eased instead: with
  \<open>i = (sin ((t\<cdot>s + o)\<cdot>15) + 1) / 2\<close>, which lies in \<open>[0,1]\<close>, it writes the opacity
  \<open>0.6 + 0.4\<cdot>i\<close> and the scale \<open>1 + 0.3\<cdot>i\<close>.
\<close>

theorem blink_levels_by_variant:
  assumes "bl_ref st = Some m" and "bl_lightRef st = Some l" and "\<not> bl_isMobile props"
    and "current r = Some m" and "material m = MeshBasicMaterial mat"
  shows "(\<exists>m' mat' l'.
        BlinkingLight_useFrame newColor props offset elapsedTime st
          = Some \<lparr>bl_ref = Some m', bl_lightRef = Some l'\<rparr>
      \<and> material m' = MeshBasicMaterial mat'
      \<and> (opacity mat', scale m', intensity l') =
          (if isOn (bl_speed props) offset elapsedTime
           then (1.0, setScalar 1.2 (scale m), 1.2)
           else (0.15, setScalar 0.9 (scale m), 0.15)))
    \<and> (\<exists>m' mat'.
        BlinkingLight_useFrame_001 speed offset elapsedTime r = Some (r\<lparr>current := Some m'\<rparr>)
      \<and> material m' = MeshBasicMaterial mat'
      \<and> opacity mat' = 0.6 + blink_intensity_001 speed offset elapsedTime * 0.4
      \<and> scale m' = setScalar (1 + blink_intensity_001 speed offset elapsedTime * 0.3) (scale m))
    \<and> blink_intensity_001 speed offset elapsedTime
        = (sin ((elapsedTime * speed + offset) * 15) + 1) / 2
    \<and> 0 \<le> blink_intensity_001 speed offset elapsedTime
    \<and> blink_intensity_001 speed offset elapsedTime \<le> 1"
proof -
  have "\<exists>m' mat' l'.
        BlinkingLight_useFrame newColor props offset elapsedTime st
          = Some \<lparr>bl_ref = Some m', bl_lightRef = Some l'\<rparr>
      \<and> material m' = MeshBasicMaterial mat'
      \<and> (opacity mat', scale m', intensity l') =
          (if isOn (bl_speed props) offset elapsedTime
           then (1.0, setScalar 1.2 (scale m), 1.2)
           else (0.15, setScalar 0.9 (scale m), 0.15))"
    using assms by (simp add: BlinkingLight_useFrame_Some)
  moreover have "\<exists>m' mat'.
        BlinkingLight_useFrame_001 speed offset elapsedTime r = Some (r\<lparr>current := Some m'\<rparr>)
      \<and> material m' = MeshBasicMaterial mat'
      \<and> opacity mat' = 0.6 + blink_intensity_001 speed offset elapsedTime * 0.4
      \<and> scale m' = setScalar (1 + blink_intensity_001 speed offset elapsedTime * 0.3) (scale m)"
    using assms(4,5) by (cases r) (simp add: BlinkingLight_useFrame_001_Some)
  moreover have "blink_intensity_001 speed offset elapsedTime
        = (sin ((elapsedTime * speed + offset) * 15) + 1) / 2"
    by (simp add: blink_intensity_001_def)
  ultimately show ?thesis
    using blink_intensity_001_range [of speed offset elapsedTime] by blast
qed

theorem blink_levels_by_variant_witness:
  "(\<exists>m' mat' l'.
      BlinkingLight_useFrame (\<lambda>c. \<lparr>col_r = 0, col_g = 1, col_b = 1 / 2\<rparr>)
        \<lparr>bl_position = (0, 0, 0), bl_color = ''#00ff88'', bl_speed = 1, bl_isMobile = False\<rparr> 0 0
        (BlinkingLight_mounted (\<lambda>c. \<lparr>col_r = 0, col_g = 1, col_b = 1 / 2\<rparr>)
           \<lparr>bl_position = (0, 0, 0), bl_color = ''#00ff88'', bl_speed = 1, bl_isMobile = False\<rparr>)
        = Some \<lparr>bl_ref = Some m', bl_lightRef = Some l'\<rparr>
    \<and> material m' = MeshBasicMaterial mat'
    \<and> (opacity mat', scale m', intensity l') = (0.15, Vector3_new 0.9 0.9 0.9, 0.15))
  \<and> (\<exists>m' mat'.
      BlinkingLight_useFrame_001 1 0 0
        \<lparr>current = Some (mounted_mesh \<lparr>col_r = 0, col_g = 1, col_b = 1 / 2\<rparr>)\<rparr>
        = Some \<lparr>current = Some m'\<rparr>
    \<and> material m' = MeshBasicMaterial mat'
    \<and> opacity mat' = 0.8 \<and> scale m' = Vector3_new 1.15 1.15 1.15)"
  using blink_levels_by_variant [where offset = 0 and elapsedTime = 0 and speed = 1
      and newColor = "\<lambda>c. \<lparr>col_r = 0, col_g = 1, col_b = 1 / 2\<rparr>"
      and props = "\<lparr>bl_position = (0, 0, 0), bl_color = ''#00ff88'', bl_speed = 1, bl_isMobile = False\<rparr>"
      and st = "BlinkingLight_mounted (\<lambda>c. \<lparr>col_r = 0, col_g = 1, col_b = 1 / 2\<rparr>)
           \<lparr>bl_position = (0, 0, 0), bl_color = ''#00ff88'', bl_speed = 1, bl_isMobile = False\<rparr>"
      and r = "\<lparr>current = Some (mounted_mesh \<lparr>col_r = 0, col_g = 1, col_b = 1 / 2\<rparr>)\<rparr>"
      and m = "mounted_mesh \<lparr>col_r = 0, col_g = 1, col_b = 1 / 2\<rparr>"
      and mat = "\<lparr>opacity = 1, color = \<lparr>col_r = 0, col_g = 1, col_b = 1 / 2\<rparr>\<rparr>"
      and l = "\<lparr>intensity = 1.5\<rparr>"]
  by (simp add: BlinkingLight_mounted_def mounted_mesh_def isOn_0 setScalar_def Vector3_new_def
      blink_intensity_001_mid)

text \<open>
  The claim as stated fails on part_001: three frames of one light write three different
  opacities (0.8, 1 and 0.6) and three different scales.
\<close>

theorem BlinkingLight_001_three_levels:
  "BlinkingLight_useFrame_001 1 0 0 \<lparr>current = Some (mounted_mesh \<lparr>col_r = 0, col_g = 1, col_b = 1 / 2\<rparr>)\<rparr>
     = Some \<lparr>current = Some \<lparr>scale = Vector3_new 1.15 1.15 1.15, position = Vector3_new 0 0 0,
          material = MeshBasicMaterial \<lparr>opacity = 0.8, color = \<lparr>col_r = 0, col_g = 1, col_b = 1 / 2\<rparr>\<rparr>\<rparr>\<rparr>
   \<and> BlinkingLight_useFrame_001 1 0 (pi / 30) \<lparr>current = Some (mounted_mesh \<lparr>col_r = 0, col_g = 1, col_b = 1 / 2\<rparr>)\<rparr>
     = Some \<lparr>current = Some \<lparr>scale = Vector3_new 1.3 1.3 1.3, position = Vector3_new 0 0 0,
          material = MeshBasicMaterial \<lparr>opacity = 1, color = \<lparr>col_r = 0, col_g = 1, col_b = 1 / 2\<rparr>\<rparr>\<rparr>\<rparr>
   \<and> BlinkingLight_useFrame_001 1 0 (pi / 10) \<lparr>current = Some (mounted_mesh \<lparr>col_r = 0, col_g = 1, col_b = 1 / 2\<rparr>)\<rparr>
     = Some \<lparr>current = Some \<lparr>scale = Vector3_new 1 1 1, position = Vector3_new 0 0 0,
          material = MeshBasicMaterial \<lparr>opacity = 0.6, color = \<lparr>col_r = 0, col_g = 1, col_b = 1 / 2\<rparr>\<rparr>\<rparr>\<rparr>"
  by (simp add: BlinkingLight_useFrame_001_Some mounted_mesh_def blink_intensity_001_mid
      blink_intensity_001_top blink_intensity_001_bottom setScalar_def Vector3_new_def)

section \<open>The rate of the blink\<close>




section \<open>The frame callbacks cannot fail\<close>

text \<open>
  C9. The per-frame animator cannot fail: for every time, phase offset, speed and state of the
  refs each frame callback returns a state (it never throws), and when the target mesh is
  absent the frame is skipped: the state comes back unchanged.
\<close>

theorem frame_callbacks_total:
  "(\<exists>st'. BlinkingLight_useFrame newColor props offset elapsedTime st = Some st')
   \<and> (\<exists>r'. PulsePacket_useFrame pprops elapsedTime r = Some r')
   \<and> (\<exists>r'. BlinkingLight_useFrame_001 speed offset elapsedTime r = Some r')
   \<and> (bl_ref st = None \<longrightarrow> BlinkingLight_useFrame newColor props offset elapsedTime st = Some st)
   \<and> (current r = None \<longrightarrow> PulsePacket_useFrame pprops elapsedTime r = Some r
        \<and> BlinkingLight_useFrame_001 speed offset elapsedTime r = Some r)"
proof -
  have "\<exists>st'. BlinkingLight_useFrame newColor props offset elapsedTime st = Some st'"
    by (cases "bl_ref st") (simp_all add: BlinkingLight_useFrame_None BlinkingLight_useFrame_Some)
  moreover have "\<exists>r'. PulsePacket_useFrame pprops elapsedTime r = Some r'"
  proof (cases "current r")
    case None
    then show ?thesis by (simp add: PulsePacket_useFrame_def)
  next
    case (Some m)
    then show ?thesis by (simp add: PulsePacket_useFrame_Some)
  qed
  moreover have "\<exists>r'. BlinkingLight_useFrame_001 speed offset elapsedTime r = Some r'"
  proof (cases "current r")
    case None
    then show ?thesis by (simp add: BlinkingLight_useFrame_001_def)
  next
    case (Some m)
    then show ?thesis by (simp add: BlinkingLight_useFrame_001_Some)
  qed
  ultimately show ?thesis
    by (simp add: BlinkingLight_useFrame_None PulsePacket_useFrame_def
        BlinkingLight_useFrame_001_def)
qed

theorem frame_callbacks_total_witness:
  "BlinkingLight_useFrame (\<lambda>c. \<lparr>col_r = 0, col_g = 1, col_b = 1 / 2\<rparr>)
      \<lparr>bl_position = (0, 0, 0), bl_color = ''#00ff88'', bl_speed = 1, bl_isMobile = False\<rparr> 0 2
      \<lparr>bl_ref = None, bl_lightRef = Some \<lparr>intensity = 1.5\<rparr>\<rparr>
    = Some \<lparr>bl_ref = None, bl_lightRef = Some \<lparr>intensity = 1.5\<rparr>\<rparr>
   \<and> PulsePacket_useFrame
      \<lparr>pathStart = Vector3_new 0 0 6, pathEnd = Vector3_new 0 0 1, pp_color = ''#00ff88'',
       pp_speed = 1, pp_offset = 0\<rparr> 2 \<lparr>current = None\<rparr>
    = Some \<lparr>current = None\<rparr>"
  using frame_callbacks_total [of "\<lambda>c. \<lparr>col_r = 0, col_g = 1, col_b = 1 / 2\<rparr>"
      "\<lparr>bl_position = (0, 0, 0), bl_color = ''#00ff88'', bl_speed = 1, bl_isMobile = False\<rparr>" 0 2
      "\<lparr>bl_ref = None, bl_lightRef = Some \<lparr>intensity = 1.5\<rparr>\<rparr>"
      "\<lparr>pathStart = Vector3_new 0 0 6, pathEnd = Vector3_new 0 0 1, pp_color = ''#00ff88'',
       pp_speed = 1, pp_offset = 0\<rparr>" "\<lparr>current = None\<rparr>" 1]
  by simp

section \<open>The progress of a pulse\<close>

text \<open>
  C3, as amended. For elapsed time \<open>t \<ge> 0\<close>, speed \<open>s > 0\<close> and offset \<open>o \<ge> 0\<close>, with the
  phase \<open>t\<cdot>s + o\<close> inside the range of the doubles, the progress of a pulse lies in \<open>[0,1)\<close>.
  It is the fractional part of the phase as the code computes it, in double arithmetic (the
  product rounded, then the sum): it is 0 exactly when the computed phase is a whole number,
  and the computed phase is off the exact \<open>t\<cdot>s + o\<close> by at most
  \<open>3\<cdot>(t\<cdot>s + o)/2^53 + 3/2^1075\<close>. So the wrap falls on the whole multiples of the period
  only up to rounding, and the progress after a whole number of periods need not be the same
  again. The frame puts the marker at the linear interpolation between the start and the end
  of the path at that progress.
\<close>

theorem pulse_progress_wraps:
  assumes "0 \<le> elapsedTime" and "0 < pp_speed props" and "0 \<le> pp_offset props"
    and "elapsedTime * pp_speed props + pp_offset props < 2 ^ 1023"
    and "current r = Some m"
  shows "0 \<le> pulse_progress (pp_speed props) (pp_offset props) elapsedTime
    \<and> pulse_progress (pp_speed props) (pp_offset props) elapsedTime < 1
    \<and> pulse_progress (pp_speed props) (pp_offset props) elapsedTime
        = pulse_phase (pp_speed props) (pp_offset props) elapsedTime
          - of_int \<lfloor>pulse_phase (pp_speed props) (pp_offset props) elapsedTime\<rfloor>
    \<and> (pulse_progress (pp_speed props) (pp_offset props) elapsedTime = 0)
        = (pulse_phase (pp_speed props) (pp_offset props) elapsedTime \<in> \<int>)
    \<and> pulse_phase (pp_speed props) (pp_offset props) elapsedTime
        = roundToDouble (roundToDouble (elapsedTime * pp_speed props) + pp_offset props)
    \<and> \<bar>pulse_phase (pp_speed props) (pp_offset props) elapsedTime
         - (elapsedTime * pp_speed props + pp_offset props)\<bar>
        \<le> 3 * (elapsedTime * pp_speed props + pp_offset props) / 2 ^ 53 + 3 / 2 ^ 1075
    \<and> (\<exists>m'. PulsePacket_useFrame props elapsedTime r = Some (r\<lparr>current := Some m'\<rparr>)
        \<and> vx (position m') = vx (pathStart props) + (vx (pathEnd props) - vx (pathStart props))
             * pulse_progress (pp_speed props) (pp_offset props) elapsedTime
        \<and> vy (position m') = vy (pathStart props) + (vy (pathEnd props) - vy (pathStart props))
             * pulse_progress (pp_speed props) (pp_offset props) elapsedTime
        \<and> vz (position m') = vz (pathStart props) + (vz (pathEnd props) - vz (pathStart props))
             * pulse_progress (pp_speed props) (pp_offset props) elapsedTime)"
proof -
  define x where "x = pulse_phase (pp_speed props) (pp_offset props) elapsedTime"
  define p where "p = pulse_progress (pp_speed props) (pp_offset props) elapsedTime"
  have s0: "0 \<le> pp_speed props"
    using assms(2) by simp
  have p: "p = x - of_int \<lfloor>x\<rfloor>"
    using assms(1,3) s0 by (simp add: p_def x_def pulse_progress_frac)
  then have "p = frac x"
    by (simp add: frac_def)
  then have "0 \<le> p" and "p < 1" and "(p = 0) = (x \<in> \<int>)"
    by (simp_all add: frac_lt_1 frac_eq_0_iff)
  moreover have "x = roundToDouble (roundToDouble (elapsedTime * pp_speed props) + pp_offset props)"
    by (simp add: x_def pulse_phase_def)
  moreover have "\<bar>x - (elapsedTime * pp_speed props + pp_offset props)\<bar>
        \<le> 3 * (elapsedTime * pp_speed props + pp_offset props) / 2 ^ 53 + 3 / 2 ^ 1075"
    using pulse_phase_error [OF assms(1) s0 assms(3)] by (simp add: x_def)
  moreover have "\<exists>m'. PulsePacket_useFrame props elapsedTime r = Some (r\<lparr>current := Some m'\<rparr>)
        \<and> vx (position m') = vx (pathStart props) + (vx (pathEnd props) - vx (pathStart props)) * p
        \<and> vy (position m') = vy (pathStart props) + (vy (pathEnd props) - vy (pathStart props)) * p
        \<and> vz (position m') = vz (pathStart props) + (vz (pathEnd props) - vz (pathStart props)) * p"
  proof -
    obtain m' where run: "PulsePacket_useFrame props elapsedTime r = Some (r\<lparr>current := Some m'\<rparr>)"
      and pos: "position m' = lerpVectors (pathStart props) (pathEnd props) p (position m)"
      using assms(5) by (simp add: PulsePacket_useFrame_Some p_def)
    from pos have "vx (position m') = vx (pathStart props) + (vx (pathEnd props) - vx (pathStart props)) * p"
      and "vy (position m') = vy (pathStart props) + (vy (pathEnd props) - vy (pathStart props)) * p"
      and "vz (position m') = vz (pathStart props) + (vz (pathEnd props) - vz (pathStart props)) * p"
      by (simp_all add: lerpVectors_def)
    with run show ?thesis by blast
  qed
  ultimately show ?thesis
    using p unfolding p_def x_def by blast
qed

theorem pulse_progress_wraps_witness:
  "(0::real) \<le> 5 \<and> (0::real) < 1 / 2 \<and> (0::real) \<le> 3 \<and> (5 * (1 / 2) + 3 :: real) < 2 ^ 1023
   \<and> pulse_phase (1 / 2) 3 5 = 11 / 2
   \<and> pulse_progress (1 / 2) 3 5 = 1 / 2
   \<and> (\<exists>m'. PulsePacket_useFrame
          \<lparr>pathStart = Vector3_new (- 0.2) (- 1.24) 6, pathEnd = Vector3_new 0 (- 1.24) 1,
           pp_color = ''#00ff88'', pp_speed = 1 / 2, pp_offset = 3\<rparr> 5
          \<lparr>current = Some (mounted_mesh \<lparr>col_r = 0, col_g = 1, col_b = 1 / 2\<rparr>)\<rparr>
        = Some \<lparr>current = Some m'\<rparr>
      \<and> vx (position m') = - 0.1 \<and> vy (position m') = - 1.24 \<and> vz (position m') = 3.5)"
proof -
  have ph: "pulse_phase (1 / 2) 3 5 = 11 / 2"
    by (simp add: pulse_phase_def fl_eval)
  have pr: "pulse_progress (1 / 2) 3 5 = 1 / 2"
    by (simp add: pulse_progress_def pulse_phase_def js_rem_def fl_eval)
  show ?thesis
    using pulse_progress_wraps [where elapsedTime = 5
      and props = "\<lparr>pathStart = Vector3_new (- 0.2) (- 1.24) 6, pathEnd = Vector3_new 0 (- 1.24) 1,
           pp_color = ''#00ff88'', pp_speed = 1 / 2, pp_offset = 3\<rparr>"
      and r = "\<lparr>current = Some (mounted_mesh \<lparr>col_r = 0, col_g = 1, col_b = 1 / 2\<rparr>)\<rparr>"
      and m = "mounted_mesh \<lparr>col_r = 0, col_g = 1, col_b = 1 / 2\<rparr>"]
    by (simp add: Vector3_new_def ph pr)
qed

text \<open>
  The claim as stated fails. With speed 0.5 the period is 2; for the offset that is the
  double nearest to 0.1, the progress at time 0 is that double, and two seconds later it is
  another number (\<^verbatim>\<open>0.10000000000000009\<close>), so the progress does not come back exactly after one
  period. And at the doubles nearest to \<open>t = 1.4\<close> and \<open>o = 0.3\<close> the progress is 0, the marker
  at the start of the path, although the exact phase \<open>t\<cdot>s + o\<close> of these inputs is not a
  whole number.
\<close>

theorem pulse_progress_wrap_inexact:
  "pulse_progress (1 / 2) (3602879701896397 / 2 ^ 55) 0 = 3602879701896397 / 2 ^ 55
   \<and> pulse_progress (1 / 2) (3602879701896397 / 2 ^ 55) (0 + of_nat 1 / (1 / 2))
       = 450359962737050 / 2 ^ 52
   \<and> pulse_progress (1 / 2) (3602879701896397 / 2 ^ 55) (0 + of_nat 1 / (1 / 2))
       \<noteq> pulse_progress (1 / 2) (3602879701896397 / 2 ^ 55) 0
   \<and> pulse_progress (1 / 2) (5404319552844595 / 2 ^ 54) (3152519739159347 / 2 ^ 51) = 0
   \<and> (3152519739159347 / 2 ^ 51 * (1 / 2) + 5404319552844595 / 2 ^ 54 :: real)
       = 1 - 1 / 2 ^ 54"
  by (simp add: pulse_progress_def pulse_phase_def js_rem_def fl_eval)

section \<open>The fade of a pulse\<close>

text \<open>
  C4. For a progress \<open>p\<close> in \<open>[0,1)\<close> the opacity of the marker is 1 when \<open>p \<le> 0.8\<close> and
  \<open>(1 - p)\<cdot>5\<close> on the last fifth of the cycle; the two branches agree at \<open>p = 0.8\<close>, the
  opacity never rises again, stays positive and tends to 0 as \<open>p\<close> approaches 1; and this is
  the opacity the frame writes to the material of the marker.
\<close>

theorem pulse_opacity_fade:
  assumes "0 \<le> p" and "p < 1"
  shows "(p \<le> 0.8 \<longrightarrow> pulse_opacity p = 1)
    \<and> (0.8 < p \<longrightarrow> pulse_opacity p = (1 - p) * 5)
    \<and> pulse_opacity 0.8 = (1 - 0.8) * 5
    \<and> 0 < pulse_opacity p \<and> pulse_opacity p \<le> 1
    \<and> (\<forall>q. p \<le> q \<and> q < 1 \<longrightarrow> pulse_opacity q \<le> pulse_opacity p)
    \<and> (pulse_opacity \<longlongrightarrow> 0) (at_left 1)
    \<and> (current r = Some m \<and> material m = MeshBasicMaterial mat
        \<and> pulse_progress (pp_speed props) (pp_offset props) elapsedTime = p \<longrightarrow>
        (\<exists>m'. PulsePacket_useFrame props elapsedTime r = Some (r\<lparr>current := Some m'\<rparr>)
          \<and> material m' = MeshBasicMaterial (mat\<lparr>opacity := pulse_opacity p\<rparr>)))"
proof -
  have "\<forall>q. p \<le> q \<and> q < 1 \<longrightarrow> pulse_opacity q \<le> pulse_opacity p"
    using assms by (auto simp: pulse_opacity_def)
  moreover have "current r = Some m \<and> material m = MeshBasicMaterial mat
        \<and> pulse_progress (pp_speed props) (pp_offset props) elapsedTime = p \<longrightarrow>
        (\<exists>m'. PulsePacket_useFrame props elapsedTime r = Some (r\<lparr>current := Some m'\<rparr>)
          \<and> material m' = MeshBasicMaterial (mat\<lparr>opacity := pulse_opacity p\<rparr>))"
  proof (intro impI, elim conjE)
    assume "current r = Some m" and "material m = MeshBasicMaterial mat"
      and "pulse_progress (pp_speed props) (pp_offset props) elapsedTime = p"
    then obtain m' where "PulsePacket_useFrame props elapsedTime r = Some (r\<lparr>current := Some m'\<rparr>)"
      and "material m' = MeshBasicMaterial (mat\<lparr>opacity := pulse_opacity p\<rparr>)"
      by (simp add: PulsePacket_useFrame_Some)
    then show "\<exists>m'. PulsePacket_useFrame props elapsedTime r = Some (r\<lparr>current := Some m'\<rparr>)
          \<and> material m' = MeshBasicMaterial (mat\<lparr>opacity := pulse_opacity p\<rparr>)"
      by blast
  qed
  moreover have "0 < pulse_opacity p" and "pulse_opacity p \<le> 1"
    using assms by (simp_all add: pulse_opacity_def)
  moreover have "pulse_opacity 0.8 = (1 - 0.8) * 5"
    by (simp add: pulse_opacity_def)
  ultimately show ?thesis
    using pulse_opacity_tendsto by (simp add: pulse_opacity_def)
qed

theorem pulse_opacity_fade_witness:
  "(0::real) \<le> 15 / 16 \<and> (15 / 16 :: real) < 1
   \<and> pulse_progress (1 / 2) (7 / 16) 1 = 15 / 16
   \<and> pulse_opacity (15 / 16) = 5 / 16 \<and> pulse_opacity 0.8 = 1 \<and> 0 < pulse_opacity (15 / 16)
   \<and> (\<exists>m'. PulsePacket_useFrame
          \<lparr>pathStart = Vector3_new (- 0.2) (- 1.24) 6, pathEnd = Vector3_new 0 (- 1.24) 1,
           pp_color = ''#00ff88'', pp_speed = 1 / 2, pp_offset = 7 / 16\<rparr> 1
          \<lparr>current = Some (mounted_mesh \<lparr>col_r = 0, col_g = 1, col_b = 1 / 2\<rparr>)\<rparr>
        = Some \<lparr>current = Some m'\<rparr>
      \<and> material m' = MeshBasicMaterial \<lparr>opacity = 5 / 16, color = \<lparr>col_r = 0, col_g = 1, col_b = 1 / 2\<rparr>\<rparr>)"
proof -
  have pr: "pulse_progress (1 / 2) (7 / 16) 1 = 15 / 16"
    by (simp add: pulse_progress_def pulse_phase_def js_rem_def fl_eval)
  show ?thesis
    using pulse_opacity_fade [where p = "15 / 16" and elapsedTime = 1
      and props = "\<lparr>pathStart = Vector3_new (- 0.2) (- 1.24) 6, pathEnd = Vector3_new 0 (- 1.24) 1,
           pp_color = ''#00ff88'', pp_speed = 1 / 2, pp_offset = 7 / 16\<rparr>"
      and r = "\<lparr>current = Some (mounted_mesh \<lparr>col_r = 0, col_g = 1, col_b = 1 / 2\<rparr>)\<rparr>"
      and m = "mounted_mesh \<lparr>col_r = 0, col_g = 1, col_b = 1 / 2\<rparr>"
      and mat = "\<lparr>opacity = 1, color = \<lparr>col_r = 0, col_g = 1, col_b = 1 / 2\<rparr>\<rparr>"]
    by (simp add: mounted_mesh_def pr pulse_opacity_def)
qed

section \<open>The overlay: theme toggle and mobile menu\<close>

lemma toLowerCase_menuItems:
  "map toLowerCase menuItems = [''home'', ''projects'', ''tools'', ''contact'']"
  by code_simp

lemma toLowerCase_items:
  "toLowerCase ''HOME'' = ''home''" "toLowerCase ''PROJECTS'' = ''projects''"
  "toLowerCase ''TOOLS'' = ''tools''" "toLowerCase ''CONTACT'' = ''contact''"
  by code_simp+

lemma mobileNav_open:
  "mobileMenuOpen st \<Longrightarrow> mobileNav (UIOverlay st) =
     map (\<lambda>item. \<lparr>label = item,
        className = (if activeSection st = toLowerCase item
                     then textPrimary (isDarkMode st) else textSecondary (isDarkMode st)),
        onClick = (\<lambda>s. setMobileMenuOpen False (setActiveSection (toLowerCase item) s))\<rparr>) menuItems"
  by (simp add: UIOverlay_def Let_def)

lemma desktopNav_eq:
  "desktopNav (UIOverlay st) =
     map (\<lambda>item. \<lparr>label = item,
        className = (if activeSection st = toLowerCase item
            then textPrimary (isDarkMode st) @ '' border-b '' @ borderPrimary (isDarkMode st) @ '' opacity-100''
            else textSecondary (isDarkMode st)),
        onClick = setActiveSection (toLowerCase item)\<rparr>) menuItems"
  by (simp add: UIOverlay_def Let_def)

text \<open>
  C5. For every view-state, clicking the theme toggle twice gives the view-state back, and
  one click flips the theme flag between dark and light (and changes nothing else).
\<close>

theorem theme_toggle_involution:
  "click themeToggle (click themeToggle st) = st
   \<and> isDarkMode (click themeToggle st) = (\<not> isDarkMode st)
   \<and> activeSection (click themeToggle st) = activeSection st
   \<and> mobileMenuOpen (click themeToggle st) = mobileMenuOpen st"
  by (simp add: click_def UIOverlay_def Let_def toggleTheme_def setIsDarkMode_def)

theorem theme_toggle_involution_witness:
  "click themeToggle (click themeToggle
      \<lparr>activeSection = ''home'', isDarkMode = True, mobileMenuOpen = False\<rparr>)
     = \<lparr>activeSection = ''home'', isDarkMode = True, mobileMenuOpen = False\<rparr>
   \<and> click themeToggle \<lparr>activeSection = ''home'', isDarkMode = True, mobileMenuOpen = False\<rparr>
     = \<lparr>activeSection = ''home'', isDarkMode = False, mobileMenuOpen = False\<rparr>"
  using theme_toggle_involution
    [of "\<lparr>activeSection = ''home'', isDarkMode = True, mobileMenuOpen = False\<rparr>"]
  by (simp add: click_def UIOverlay_def Let_def toggleTheme_def setIsDarkMode_def)

text \<open>
  C6. While the mobile menu is open it shows one entry per menu item, and the click handler
  of the entry of an item turns any view-state, in one transition, into the state whose
  section is the lower-cased label of the item and whose menu is closed.
\<close>

theorem mobile_entry_select:
  assumes "mobileMenuOpen st" and "i < length menuItems"
  shows "length (mobileNav (UIOverlay st)) = length menuItems
    \<and> label (mobileNav (UIOverlay st) ! i) = menuItems ! i
    \<and> onClick (mobileNav (UIOverlay st) ! i) s
        = s\<lparr>activeSection := toLowerCase (menuItems ! i), mobileMenuOpen := False\<rparr>
    \<and> toLowerCase (menuItems ! i) = [''home'', ''projects'', ''tools'', ''contact''] ! i"
proof -
  have "toLowerCase (menuItems ! i) = map toLowerCase menuItems ! i"
    using assms(2) by simp
  then have "toLowerCase (menuItems ! i) = [''home'', ''projects'', ''tools'', ''contact''] ! i"
    by (simp only: toLowerCase_menuItems)
  then show ?thesis
    using assms
    by (simp add: mobileNav_open setMobileMenuOpen_def setActiveSection_def)
qed

theorem mobile_entry_select_witness:
  "mobileMenuOpen \<lparr>activeSection = ''home'', isDarkMode = True, mobileMenuOpen = True\<rparr>
   \<and> label (mobileNav (UIOverlay
        \<lparr>activeSection = ''home'', isDarkMode = True, mobileMenuOpen = True\<rparr>) ! 1) = ''PROJECTS''
   \<and> onClick (mobileNav (UIOverlay
        \<lparr>activeSection = ''home'', isDarkMode = True, mobileMenuOpen = True\<rparr>) ! 1)
        \<lparr>activeSection = ''home'', isDarkMode = True, mobileMenuOpen = True\<rparr>
      = \<lparr>activeSection = ''projects'', isDarkMode = True, mobileMenuOpen = False\<rparr>"
  using mobile_entry_select
    [of "\<lparr>activeSection = ''home'', isDarkMode = True, mobileMenuOpen = True\<rparr>" 1
        "\<lparr>activeSection = ''home'', isDarkMode = True, mobileMenuOpen = True\<rparr>"]
  by (simp add: menuItems_def)

section \<open>Phase offsets across renders\<close>

text \<open>
  A \<^verbatim>\<open>BlinkingLight\<close> draws its offset when it is mounted and keeps it: whatever renders and
  frames follow, the memo cell and the offset seen by the frame callback stay the same.
\<close>

lemma useMemo_filled: "useMemo factory (Some v) g = (v, Some v, g)"
  by (simp add: useMemo_def)

lemma BlinkingLight_rerender:
  assumes "offset_cell inst = Some v"
  shows "BlinkingLight props inst g = (inst\<lparr>frame_props := props, frame_offset := v\<rparr>, g)"
  using assms by (simp add: BlinkingLight_def useMemo_filled)

lemma BlinkingLight_mount:
  assumes "offset_cell inst = None"
  shows "BlinkingLight props inst g =
    (inst\<lparr>offset_cell := Some (g 0 * 100), frame_props := props, frame_offset := g 0 * 100\<rparr>,
     \<lambda>n. g (Suc n))"
  using assms by (simp add: BlinkingLight_def useMemo_def Math_random_def)

lemma BlinkingLight_event_offset:
  assumes "offset_cell inst = Some v" and "frame_offset inst = v"
  shows "\<exists>inst'. BlinkingLight_event newColor e inst = Some inst'
    \<and> offset_cell inst' = Some v \<and> frame_offset inst' = v"
proof (cases e)
  case (Render props g)
  then show ?thesis
    using assms by (simp add: BlinkingLight_event_def BlinkingLight_rerender)
next
  case (Frame elapsedTime)
  obtain r where "BlinkingLight_useFrame newColor (frame_props inst) (frame_offset inst)
      elapsedTime (refs inst) = Some r"
    by (cases "bl_ref (refs inst)")
       (simp_all add: BlinkingLight_useFrame_None BlinkingLight_useFrame_Some)
  then show ?thesis
    using assms Frame by (simp add: BlinkingLight_event_def)
qed

lemma BlinkingLight_offset_stable:
  assumes "offset_cell inst = Some v" and "frame_offset inst = v"
  shows "\<exists>inst'. BlinkingLight_events newColor es inst = Some inst'
    \<and> offset_cell inst' = Some v \<and> frame_offset inst' = v"
  using assms
proof (induction es arbitrary: inst)
  case Nil
  then show ?case by simp
next
  case (Cons e es)
  from BlinkingLight_event_offset [OF Cons.prems, of newColor e]
  obtain inst1 where "BlinkingLight_event newColor e inst = Some inst1"
    and "offset_cell inst1 = Some v" and "frame_offset inst1 = v"
    by blast
  then show ?case
    using Cons.IH [of inst1] by simp
qed

lemma BlinkingLight_offset_assigned_once:
  assumes "offset_cell inst = None"
  shows "\<exists>inst'. BlinkingLight_events newColor (Render props g # es) inst = Some inst'
    \<and> offset_cell inst' = Some (g 0 * 100) \<and> frame_offset inst' = g 0 * 100"
proof -
  define inst1 where "inst1 = fst (BlinkingLight props inst g)"
  have "offset_cell inst1 = Some (g 0 * 100)" and "frame_offset inst1 = g 0 * 100"
    using assms by (simp_all add: inst1_def BlinkingLight_mount)
  from BlinkingLight_offset_stable [OF this, of newColor es]
  show ?thesis
    by (simp add: BlinkingLight_event_def inst1_def)
qed

text \<open>The props of the pulses, in contrast, are drawn by every render of \<^verbatim>\<open>CircuitFloor\<close>.\<close>

lemma PulsePackets_color: "map pp_color (fst (PulsePackets ps c g)) = replicate (length ps) c"
  by (induction ps c g rule: PulsePackets.induct) (auto simp: Math_random_def split: prod.splits)

lemma length_paths: "length paths = 9"
  by (simp add: paths_def paths_to_def)

lemma PulsePackets_const:
  "map (\<lambda>p. (pp_speed p, pp_offset p)) (fst (PulsePackets ps c (\<lambda>n. x)))
     = replicate (length ps) (0.5 + x * 0.5, x * 10)"
  by (induction ps) (auto simp: Math_random_def split: prod.splits)

text \<open>
  C7. The claim is that the phase offset of every animated instance is assigned once, at
  creation, and never recomputed. For the nine \<^verbatim>\<open>PulsePacket\<close> instances the code does
  otherwise: two renders of \<^verbatim>\<open>CircuitFloor\<close> in the same theme, one with all draws 0 and one
  with all draws 1/2, hand the same instances the speed and offset \<open>(1/2, 0)\<close> and then
  \<open>(3/4, 5)\<close>, and the progress of a marker at elapsed time 1 jumps from 1/2 to 3/4.
\<close>

theorem CircuitFloor_offsets_redrawn:
  "map (\<lambda>p. (pp_speed p, pp_offset p)) (fst (CircuitFloor True (\<lambda>n. 0)))
     = replicate 9 (1 / 2, 0)
   \<and> map (\<lambda>p. (pp_speed p, pp_offset p)) (fst (CircuitFloor True (\<lambda>n. 1 / 2)))
     = replicate 9 (3 / 4, 5)
   \<and> pulse_progress (1 / 2) 0 1 = 1 / 2 \<and> pulse_progress (3 / 4) 5 1 = 3 / 4"
  by (simp add: CircuitFloor_def PulsePackets_const length_paths pulse_progress_def
      pulse_phase_def js_rem_def fl_eval)

section \<open>Rendering in the dark theme\<close>

lemma ServerBlade_colors:
  "map bl_color (fst (ServerBlade dark mob h g)) = [greenColor dark, amberColor dark]"
  by (simp add: ServerBlade_def split: prod.splits)

lemma ServerBlade_001_colors:
  "l \<in> set (fst (ServerBlade_001 dark cell g)) \<Longrightarrow>
     bl1_color l = (if bl1_position l = (0.15, 0, 0) then secondaryLightColor dark else lightColor dark)"
  by (auto simp: ServerBlade_001_def split: prod.splits if_splits)

text \<open>
  What every render in the dark theme has in common: the navigation labels and their classes
  are a function of the active section, and each colour handed to a status light or to a
  floor pulse is the one the dark palette selects, whatever the random draws and the memoised
  values of the instance.
\<close>

lemma dark_palette_stable:
  assumes "isDarkMode st"
  shows "map label (desktopNav (UIOverlay st)) = [''HOME'', ''PROJECTS'', ''TOOLS'', ''CONTACT'']
    \<and> map className (desktopNav (UIOverlay st)) =
        map (\<lambda>s. if activeSection st = s
                  then ''text-arch-100 border-b border-arch-100 opacity-100'' else ''text-arch-500'')
          [''home'', ''projects'', ''tools'', ''contact'']
    \<and> (textPrimary (isDarkMode st), textSecondary (isDarkMode st), borderPrimary (isDarkMode st),
        borderSecondary (isDarkMode st), cardBg (isDarkMode st), mobileMenuBg (isDarkMode st))
       = (''text-arch-100'', ''text-arch-500'', ''border-arch-100'', ''border-arch-800'',
          ''bg-arch-900/80'', ''bg-arch-900'')
    \<and> map bl_color (fst (ServerBlade (isDarkMode st) mob h g)) = [''#00ff88'', ''#ffaa00'']
    \<and> map bl_color (fst (ServerBlade (isDarkMode st) mob h g))
       = map bl_color (fst (ServerBlade (isDarkMode st) mob h' g'))
    \<and> map pp_color (fst (CircuitFloor (isDarkMode st) g)) = replicate 9 ''#00ff88''
    \<and> map pp_color (fst (CircuitFloor (isDarkMode st) g))
       = map pp_color (fst (CircuitFloor (isDarkMode st) g'))
    \<and> (\<forall>l \<in> set (fst (ServerBlade_001 (isDarkMode st) cell g)).
         bl1_color l = (if bl1_position l = (0.15, 0, 0) then ''#00ffff'' else ''#00ff88''))"
proof -
  have "\<forall>l \<in> set (fst (ServerBlade_001 (isDarkMode st) cell g)).
         bl1_color l = (if bl1_position l = (0.15, 0, 0) then ''#00ffff'' else ''#00ff88'')"
    using assms ServerBlade_001_colors [of _ True cell g]
    by (simp add: secondaryLightColor_def lightColor_def)
  moreover have "map className (desktopNav (UIOverlay st)) =
        map (\<lambda>s. if activeSection st = s
                  then ''text-arch-100 border-b border-arch-100 opacity-100'' else ''text-arch-500'')
          [''home'', ''projects'', ''tools'', ''contact'']"
    using assms
    by (simp add: desktopNav_eq menuItems_def toLowerCase_items textPrimary_def
        borderPrimary_def textSecondary_def)
  moreover have "map label (desktopNav (UIOverlay st)) = [''HOME'', ''PROJECTS'', ''TOOLS'', ''CONTACT'']"
    by (simp add: desktopNav_eq menuItems_def)
  ultimately show ?thesis
    using assms
    by (simp add: textPrimary_def textSecondary_def borderPrimary_def borderSecondary_def
        cardBg_def mobileMenuBg_def ServerBlade_colors greenColor_def amberColor_def
        CircuitFloor_def PulsePackets_color length_paths pulseColor_def)
qed


text \<open>
  C8. The claim is that in the dark theme two renders of an identical view-state produce
  equal output, with no dependence on hidden randomness. The status lights of \<^verbatim>\<open>ServerBlade\<close>
  in part_001 do otherwise: the fourth light hangs on a \<^verbatim>\<open>Math.random()\<close> drawn by the render
  itself. Two renders of one mounted blade (\<^verbatim>\<open>hasLights\<close> memoised as true) in the dark theme,
  one with the draw 0 and one with the draw 0.9, give three lights in the primary colour and
  then those three and a fourth in the secondary colour.
\<close>

theorem ServerBlade_001_render_redrawn:
  "map (\<lambda>l. (bl1_position l, bl1_color l)) (fst (ServerBlade_001 True (Some True) (\<lambda>n. 0)))
     = [((0, 0, 0), ''#00ff88''), ((0.05, 0, 0), ''#00ff88''), ((0.10, 0, 0), ''#00ff88'')]
   \<and> map (\<lambda>l. (bl1_position l, bl1_color l)) (fst (ServerBlade_001 True (Some True) (\<lambda>n. 9 / 10)))
     = [((0, 0, 0), ''#00ff88''), ((0.05, 0, 0), ''#00ff88''), ((0.10, 0, 0), ''#00ff88''),
        ((0.15, 0, 0), ''#00ffff'')]
   \<and> fst (snd (ServerBlade_001 True (Some True) (\<lambda>n. 0))) = Some True
   \<and> fst (snd (ServerBlade_001 True (Some True) (\<lambda>n. 9 / 10))) = Some True
   \<and> fst (ServerBlade_001 True (Some True) (\<lambda>n. 0))
       \<noteq> fst (ServerBlade_001 True (Some True) (\<lambda>n. 9 / 10))"
  by (simp add: ServerBlade_001_def useMemo_def Math_random_def lightColor_def
      secondaryLightColor_def)

end
